theory Spec2Isabelle
  imports Main "HOL-Library.Sublist" "HOL-Library.Char_ord" "HOL-Library.List_Lexorder"
begin

section \<open>Values exchanged with the Google Tasks client\<close>

text \<open>
  The handlers of \<^verbatim>\<open>server.py\<close> receive parsed JSON from the API client and return
  Python dictionaries. A dictionary is an association list in insertion order, looked up
  with \<open>map_of\<close>; the handlers only ever build dictionaries with distinct keys.
  Strings are byte strings: the model covers ASCII text (letters outside ASCII are left
  alone by \<open>py_lower\<close>, and only the ASCII digits are digits).
\<close>

datatype json =
    JNull
  | JBool bool
  | JInt int
  | JStr string
  | JList "json list"
  | JObj "(string \<times> json) list"

type_synonym dict = "(string \<times> json) list"

text \<open>
  The exceptions are the subclasses of Python's \<^verbatim>\<open>Exception\<close> that the handlers can meet:
  \<^verbatim>\<open>HttpError\<close> of the API client, the interpreter's own errors, and any other one
  (transport errors and the like). Each carries the text that \<^verbatim>\<open>str(e)\<close> gives; the texts
  of the interpreter's errors are representative.
\<close>

datatype exn =
    HttpError string
  | KeyError string
  | TypeError string
  | AttributeError string
  | ValueError string
  | OtherException string

fun exn_str :: "exn \<Rightarrow> string" where
  "exn_str (HttpError m) = m"
| "exn_str (KeyError m) = m"
| "exn_str (TypeError m) = m"
| "exn_str (AttributeError m) = m"
| "exn_str (ValueError m) = m"
| "exn_str (OtherException m) = m"

definition quote :: string where
  "quote = [CHR 0x27]"

subsection \<open>Python's operations on these values\<close>

fun dict_set :: "string \<Rightarrow> json \<Rightarrow> dict \<Rightarrow> dict" where
  "dict_set k v [] = [(k, v)]"
| "dict_set k v ((k', v') # d) =
     (if k = k' then (k, v) # d else (k', v') # dict_set k v d)"

text \<open>\<^verbatim>\<open>{**a, **b}\<close>: the entries of \<open>b\<close> are stored into \<open>a\<close> one by one.\<close>

definition dict_merge :: "dict \<Rightarrow> dict \<Rightarrow> dict" where
  "dict_merge a b = foldl (\<lambda>d kv. dict_set (fst kv) (snd kv) d) a b"

text \<open>\<^verbatim>\<open>x.get(k, dflt)\<close>: only a dictionary has the method.\<close>

fun py_get :: "json \<Rightarrow> string \<Rightarrow> json \<Rightarrow> exn + json" where
  "py_get (JObj d) k dflt = Inr (case map_of d k of None \<Rightarrow> dflt | Some v \<Rightarrow> v)"
| "py_get _ k dflt = Inl (AttributeError ''object has no attribute get'')"

text \<open>\<^verbatim>\<open>x[k]\<close> with a string key.\<close>

fun py_getitem :: "json \<Rightarrow> string \<Rightarrow> exn + json" where
  "py_getitem (JObj d) k =
     (case map_of d k of None \<Rightarrow> Inl (KeyError (quote @ k @ quote)) | Some v \<Rightarrow> Inr v)"
| "py_getitem _ k = Inl (TypeError ''indices must be integers or object is not subscriptable'')"

text \<open>
  \<^verbatim>\<open>for x in v\<close>: a list gives its elements, a string its characters, a dictionary its
  keys; nothing else can be iterated.
\<close>

fun py_iter :: "json \<Rightarrow> exn + json list" where
  "py_iter (JList xs) = Inr xs"
| "py_iter (JStr s) = Inr (map (\<lambda>c. JStr [c]) s)"
| "py_iter (JObj d) = Inr (map (\<lambda>kv. JStr (fst kv)) d)"
| "py_iter _ = Inl (TypeError ''object is not iterable'')"

text \<open>Truth value of a value, as \<^verbatim>\<open>if v\<close> and \<^verbatim>\<open>a and b\<close> test it.\<close>

fun truthy :: "json \<Rightarrow> bool" where
  "truthy JNull = False"
| "truthy (JBool b) = b"
| "truthy (JInt n) = (n \<noteq> 0)"
| "truthy (JStr s) = (s \<noteq> [])"
| "truthy (JList xs) = (xs \<noteq> [])"
| "truthy (JObj d) = (d \<noteq> [])"

text \<open>A list comprehension whose element expression may raise: the first raise wins.\<close>

fun collect :: "('a \<Rightarrow> exn + 'b) \<Rightarrow> 'a list \<Rightarrow> exn + 'b list" where
  "collect f [] = Inr []"
| "collect f (x # xs) =
     (case f x of
        Inl e \<Rightarrow> Inl e
      | Inr y \<Rightarrow> (case collect f xs of Inl e \<Rightarrow> Inl e | Inr ys \<Rightarrow> Inr (y # ys)))"

section \<open>Remote calls\<close>

text \<open>
  Every \<^verbatim>\<open>.execute()\<close> of the source is one remote call. A call is recorded with its
  keyword arguments (an optional keyword is \<open>None\<close> when the source leaves it out). The
  service answers a call with a value or raises; its answer may depend on the calls made
  before in the same invocation. A handler starts from the empty log and appends each call
  with its answer.
\<close>

datatype call =
    TasklistsList
  | TasklistsInsert dict
  | TasksList json int bool bool
  | TasksGet json string
  | TasksInsert json dict "string option" "string option"
  | TasksPatch json string dict
  | TasksMove json string "string option" "string option"
  | TasksDelete json string

type_synonym response = "exn + json"
type_synonym log = "(call \<times> response) list"
type_synonym service = "log \<Rightarrow> call \<Rightarrow> response"
type_synonym 'a comp = "log \<Rightarrow> (exn + 'a) \<times> log"

definition ret :: "'a \<Rightarrow> 'a comp" where
  "ret x = (\<lambda>l. (Inr x, l))"

definition raise :: "exn \<Rightarrow> 'a comp" where
  "raise e = (\<lambda>l. (Inl e, l))"

definition lift :: "exn + 'a \<Rightarrow> 'a comp" where
  "lift r = (\<lambda>l. (r, l))"

definition bnd :: "'a comp \<Rightarrow> ('a \<Rightarrow> 'b comp) \<Rightarrow> 'b comp" where
  "bnd m f = (\<lambda>l. case m l of (Inl e, l') \<Rightarrow> (Inl e, l') | (Inr x, l') \<Rightarrow> f x l')"

definition execute :: "service \<Rightarrow> call \<Rightarrow> json comp" where
  "execute service c = (\<lambda>l. (service l c, l @ [(c, service l c)]))"

section \<open>List resolution\<close>

text \<open>\<^verbatim>\<open>[tl['id'] for tl in tasklists.get('items', [])]\<close> (server.py 144 and 294).\<close>

definition available_ids :: "json \<Rightarrow> exn + json list" where
  "available_ids tasklists =
     (case py_get tasklists ''items'' (JList []) of
        Inl e \<Rightarrow> Inl e
      | Inr items \<Rightarrow>
          (case py_iter items of
             Inl e \<Rightarrow> Inl e
           | Inr tls \<Rightarrow> collect (\<lambda>tl. py_getitem tl ''id'') tls))"

definition resolve_tasklist_id :: "service \<Rightarrow> string \<Rightarrow> dict comp" where
  "resolve_tasklist_id service tasklist_id =
     bnd (execute service TasklistsList) (\<lambda>tasklists.
     bnd (lift (available_ids tasklists)) (\<lambda>available_lists.
       if tasklist_id = ''@default'' then
         (case available_lists of
            [] \<Rightarrow> ret [(''error'', JStr ''No task lists found.''), (''available_lists'', JList [])]
          | first # _ \<Rightarrow>
              ret [(''tasklist_id'', first), (''available_lists'', JList available_lists)])
       else if JStr tasklist_id \<notin> set available_lists then
         ret [(''error'', JStr (''Task list '' @ quote @ tasklist_id @ quote @ '' not found.'')),
              (''available_lists'', JList available_lists)]
       else
         ret [(''tasklist_id'', JStr tasklist_id), (''available_lists'', JList available_lists)]))"

section \<open>Handlers\<close>

text \<open>
  \<^verbatim>\<open>get_google_tasks_service()\<close> depends on the environment (token, files, consent flow):
  its outcome is an input of every handler. It raises, returns \<^verbatim>\<open>None\<close> or returns the
  service the remote calls go to.
\<close>

type_synonym auth = "exn + service option"

text \<open>
  \<^verbatim>\<open>try: ... except HttpError as e: ... except Exception as e: ...\<close> around a whole handler
  body: a raise becomes the dictionary the matching clause returns.
\<close>

definition try_except :: "dict comp \<Rightarrow> (exn \<Rightarrow> dict) \<Rightarrow> dict comp" where
  "try_except body handler =
     (\<lambda>l. case body l of (Inl e, l') \<Rightarrow> (Inr (handler e), l') | (Inr d, l') \<Rightarrow> (Inr d, l'))"

text \<open>The two clauses that close the eight handlers from \<^verbatim>\<open>create_task\<close> on.\<close>

fun api_except :: "exn \<Rightarrow> dict" where
  "api_except (HttpError m) = [(''error'', JStr (''Google Tasks API error: '' @ m))]"
| "api_except e = [(''error'', JStr (exn_str e))]"

text \<open>
  The opening lines shared by the seven task-level handlers (server.py 340-346, 413-419,
  478-484, 521-527, 590-596, 639-645, 703-709): obtain the service, resolve the list, give
  up with the resolver's error, else go on with the resolved identifier.
\<close>

definition task_level :: "auth \<Rightarrow> string \<Rightarrow> (service \<Rightarrow> json \<Rightarrow> dict comp) \<Rightarrow> dict comp" where
  "task_level auth tasklist_id rest =
     bnd (lift auth) (\<lambda>service.
       case service of
         None \<Rightarrow> ret [(''error'', JStr ''Auth failed'')]
       | Some service \<Rightarrow>
           bnd (resolve_tasklist_id service tasklist_id) (\<lambda>resolved.
             case map_of resolved ''error'' of
               Some err \<Rightarrow> ret (dict_merge [(''error'', err)] resolved)
             | None \<Rightarrow>
                 bnd (lift (py_getitem (JObj resolved) ''tasklist_id'')) (\<lambda>tasklist_id.
                   rest service tasklist_id)))"

definition opt_field :: "string \<Rightarrow> string option \<Rightarrow> dict" where
  "opt_field k v = (case v of None \<Rightarrow> [] | Some s \<Rightarrow> [(k, JStr s)])"

subsection \<open>Due dates of \<^verbatim>\<open>create_task\<close>\<close>

text \<open>
  \<^verbatim>\<open>datetime.strptime(due, "%Y-%m-%d")\<close> matches the regular expression
  \<^verbatim>\<open>(\d\d\d\d)-(1[0-2]|0[1-9]|[1-9])-(3[0-1]|[1-2]\d|0[1-9]|[1-9]| [1-9])\<close> at the start of
  the text, refuses text left over, and then refuses a date that does not exist.
\<close>

definition is_digit :: "char \<Rightarrow> bool" where
  "is_digit c = (CHR ''0'' \<le> c \<and> c \<le> CHR ''9'')"

definition is_digit19 :: "char \<Rightarrow> bool" where
  "is_digit19 c = (CHR ''1'' \<le> c \<and> c \<le> CHR ''9'')"

definition digit_val :: "char \<Rightarrow> nat" where
  "digit_val c = of_char c - 48"

fun re_year :: "string \<Rightarrow> (nat \<times> string) option" where
  "re_year (a # b # c # d # rest) =
     (if is_digit a \<and> is_digit b \<and> is_digit c \<and> is_digit d
      then Some (digit_val a * 1000 + digit_val b * 100 + digit_val c * 10 + digit_val d, rest)
      else None)"
| "re_year _ = None"

fun re_dash :: "string \<Rightarrow> string option" where
  "re_dash (a # rest) = (if a = CHR ''-'' then Some rest else None)"
| "re_dash [] = None"

fun re_month :: "string \<Rightarrow> (nat \<times> string) option" where
  "re_month (a # b # rest) =
     (if a = CHR ''1'' \<and> CHR ''0'' \<le> b \<and> b \<le> CHR ''2'' then Some (10 + digit_val b, rest)
      else if a = CHR ''0'' \<and> is_digit19 b then Some (digit_val b, rest)
      else if is_digit19 a then Some (digit_val a, b # rest)
      else None)"
| "re_month [a] = (if is_digit19 a then Some (digit_val a, []) else None)"
| "re_month [] = None"

fun re_day :: "string \<Rightarrow> (nat \<times> string) option" where
  "re_day (a # b # rest) =
     (if a = CHR ''3'' \<and> CHR ''0'' \<le> b \<and> b \<le> CHR ''1'' then Some (30 + digit_val b, rest)
      else if CHR ''1'' \<le> a \<and> a \<le> CHR ''2'' \<and> is_digit b
        then Some (digit_val a * 10 + digit_val b, rest)
      else if a = CHR ''0'' \<and> is_digit19 b then Some (digit_val b, rest)
      else if is_digit19 a then Some (digit_val a, b # rest)
      else if a = CHR '' '' \<and> is_digit19 b then Some (digit_val b, rest)
      else None)"
| "re_day [a] = (if is_digit19 a then Some (digit_val a, []) else None)"
| "re_day [] = None"

definition is_leap :: "nat \<Rightarrow> bool" where
  "is_leap y = (y mod 4 = 0 \<and> (y mod 100 \<noteq> 0 \<or> y mod 400 = 0))"

definition days_in_month :: "nat \<Rightarrow> nat \<Rightarrow> nat" where
  "days_in_month y m =
     (if m = 2 then (if is_leap y then 29 else 28)
      else if m = 4 \<or> m = 6 \<or> m = 9 \<or> m = 11 then 30 else 31)"

definition no_match :: "string \<Rightarrow> exn" where
  "no_match s =
     ValueError (''time data '' @ quote @ s @ quote @ '' does not match format ''
                 @ quote @ ''%Y-%m-%d'' @ quote)"

definition strptime_ymd :: "string \<Rightarrow> exn + nat \<times> nat \<times> nat" where
  "strptime_ymd s =
     (case re_year s of
        None \<Rightarrow> Inl (no_match s)
      | Some (y, s1) \<Rightarrow>
     (case re_dash s1 of
        None \<Rightarrow> Inl (no_match s)
      | Some s2 \<Rightarrow>
     (case re_month s2 of
        None \<Rightarrow> Inl (no_match s)
      | Some (m, s3) \<Rightarrow>
     (case re_dash s3 of
        None \<Rightarrow> Inl (no_match s)
      | Some s4 \<Rightarrow>
     (case re_day s4 of
        None \<Rightarrow> Inl (no_match s)
      | Some (d, s5) \<Rightarrow>
          if s5 \<noteq> [] then Inl (ValueError (''unconverted data remains: '' @ s5))
          else if y = 0 then Inl (ValueError ''year 0 is out of range'')
          else if days_in_month y m < d then Inl (ValueError ''day is out of range for month'')
          else Inr (y, m, d))))))"

text \<open>
  \<^verbatim>\<open>date_obj.strftime("%Y-%m-%dT00:00:00.000Z")\<close>. The year is written with four digits;
  for years below 1000 the C library decides the padding, from 1000 on there is none.
\<close>

definition digit_char :: "nat \<Rightarrow> char" where
  "digit_char n = ''0123456789'' ! (n mod 10)"

definition pad2 :: "nat \<Rightarrow> string" where
  "pad2 n = [digit_char (n div 10), digit_char n]"

definition pad4 :: "nat \<Rightarrow> string" where
  "pad4 n = [digit_char (n div 1000), digit_char (n div 100), digit_char (n div 10), digit_char n]"

definition strftime_midnight :: "nat \<times> nat \<times> nat \<Rightarrow> string" where
  "strftime_midnight date =
     (case date of (y, m, d) \<Rightarrow> pad4 y @ ''-'' @ pad2 m @ ''-'' @ pad2 d @ ''T00:00:00.000Z'')"

text \<open>The inner \<^verbatim>\<open>try\<close> block of \<^verbatim>\<open>create_task\<close> (server.py 349-356).\<close>

definition format_due :: "string \<Rightarrow> exn + string" where
  "format_due due =
     (if CHR ''T'' \<in> set due then Inr due
      else (case strptime_ymd due of
              Inl e \<Rightarrow> Inl e
            | Inr date_obj \<Rightarrow> Inr (strftime_midnight date_obj)))"

definition invalid_date :: "string \<Rightarrow> dict" where
  "invalid_date m =
     [(''error'', JStr (''Invalid date format. Please use YYYY-MM-DD format (e.g., ''
         @ quote @ ''2024-12-31'' @ quote @ ''). Error: '' @ m))]"

definition create_task_body ::
  "auth \<Rightarrow> string \<Rightarrow> string \<Rightarrow> string \<Rightarrow> string option \<Rightarrow> string option \<Rightarrow> string option
     \<Rightarrow> dict comp" where
  "create_task_body auth title due tasklist_id notes parent position =
     task_level auth tasklist_id (\<lambda>service tasklist_id.
        case format_due due of
          Inl (ValueError m) \<Rightarrow> ret (invalid_date m)
        | Inl e \<Rightarrow> raise e
        | Inr due_formatted \<Rightarrow>
            bnd (execute service
                   (TasksInsert tasklist_id
                      ([(''title'', JStr title), (''due'', JStr due_formatted)]
                         @ opt_field ''notes'' notes)
                      parent position)) (\<lambda>created.
              ret [(''tasklist_id'', tasklist_id), (''task'', created)]))"

definition create_task ::
  "auth \<Rightarrow> string \<Rightarrow> string \<Rightarrow> string \<Rightarrow> string option \<Rightarrow> string option \<Rightarrow> string option
     \<Rightarrow> (exn + dict) \<times> log" where
  "create_task auth title due tasklist_id notes parent position =
     try_except (create_task_body auth title due tasklist_id notes parent position)
       api_except []"

subsection \<open>\<^verbatim>\<open>update_task\<close>, \<^verbatim>\<open>complete_task\<close>, \<^verbatim>\<open>delete_task\<close>, \<^verbatim>\<open>get_task\<close>, \<^verbatim>\<open>move_task\<close>\<close>

definition update_task_body ::
  "auth \<Rightarrow> string \<Rightarrow> string \<Rightarrow> string option \<Rightarrow> string option \<Rightarrow> string option
     \<Rightarrow> string option \<Rightarrow> string option \<Rightarrow> string option \<Rightarrow> dict comp" where
  "update_task_body auth task_id tasklist_id title notes due status parent position =
     task_level auth tasklist_id (\<lambda>service tasklist_id.
        bnd (execute service (TasksGet tasklist_id task_id)) (\<lambda>current.
        bnd (execute service
               (TasksPatch tasklist_id task_id
                  (opt_field ''title'' title @ opt_field ''notes'' notes
                     @ opt_field ''due'' due @ opt_field ''status'' status))) (\<lambda>updated.
          if parent \<noteq> None \<or> position \<noteq> None then
            bnd (execute service (TasksMove tasklist_id task_id parent position)) (\<lambda>updated.
              ret [(''tasklist_id'', tasklist_id), (''task'', updated)])
          else ret [(''tasklist_id'', tasklist_id), (''task'', updated)])))"

definition update_task ::
  "auth \<Rightarrow> string \<Rightarrow> string \<Rightarrow> string option \<Rightarrow> string option \<Rightarrow> string option
     \<Rightarrow> string option \<Rightarrow> string option \<Rightarrow> string option \<Rightarrow> (exn + dict) \<times> log" where
  "update_task auth task_id tasklist_id title notes due status parent position =
     try_except
       (update_task_body auth task_id tasklist_id title notes due status parent position)
       api_except []"

definition complete_task_body ::
  "auth \<Rightarrow> string \<Rightarrow> string \<Rightarrow> bool \<Rightarrow> dict comp" where
  "complete_task_body auth task_id tasklist_id completed =
     task_level auth tasklist_id (\<lambda>service tasklist_id.
        bnd (execute service
               (TasksPatch tasklist_id task_id
                  [(''status'', JStr (if completed then ''completed'' else ''needsAction''))]))
          (\<lambda>updated. ret [(''tasklist_id'', tasklist_id), (''task'', updated)]))"

definition complete_task ::
  "auth \<Rightarrow> string \<Rightarrow> string \<Rightarrow> bool \<Rightarrow> (exn + dict) \<times> log" where
  "complete_task auth task_id tasklist_id completed =
     try_except (complete_task_body auth task_id tasklist_id completed) api_except []"

definition delete_task_body ::
  "auth \<Rightarrow> string \<Rightarrow> string \<Rightarrow> dict comp" where
  "delete_task_body auth task_id tasklist_id =
     task_level auth tasklist_id (\<lambda>service tasklist_id.
        bnd (execute service (TasksDelete tasklist_id task_id)) (\<lambda>_.
          ret [(''tasklist_id'', tasklist_id), (''deleted'', JBool True),
               (''task_id'', JStr task_id)]))"

definition delete_task ::
  "auth \<Rightarrow> string \<Rightarrow> string \<Rightarrow> (exn + dict) \<times> log" where
  "delete_task auth task_id tasklist_id =
     try_except (delete_task_body auth task_id tasklist_id) api_except []"

definition create_tasklist_body ::
  "auth \<Rightarrow> string \<Rightarrow> dict comp" where
  "create_tasklist_body auth title =
     bnd (lift auth) (\<lambda>service.
        case service of
          None \<Rightarrow> ret [(''error'', JStr ''Auth failed'')]
        | Some service \<Rightarrow>
            bnd (execute service (TasklistsInsert [(''title'', JStr title)])) (\<lambda>created.
              ret [(''tasklist'', created)]))"

definition create_tasklist ::
  "auth \<Rightarrow> string \<Rightarrow> (exn + dict) \<times> log" where
  "create_tasklist auth title =
     try_except (create_tasklist_body auth title) api_except []"

definition get_task_body ::
  "auth \<Rightarrow> string \<Rightarrow> string \<Rightarrow> dict comp" where
  "get_task_body auth task_id tasklist_id =
     task_level auth tasklist_id (\<lambda>service tasklist_id.
        bnd (execute service (TasksGet tasklist_id task_id)) (\<lambda>task.
          ret [(''tasklist_id'', tasklist_id), (''task'', task)]))"

definition get_task ::
  "auth \<Rightarrow> string \<Rightarrow> string \<Rightarrow> (exn + dict) \<times> log" where
  "get_task auth task_id tasklist_id =
     try_except (get_task_body auth task_id tasklist_id) api_except []"

definition move_task_body ::
  "auth \<Rightarrow> string \<Rightarrow> string \<Rightarrow> string option \<Rightarrow> string option \<Rightarrow> dict comp" where
  "move_task_body auth task_id tasklist_id parent previous =
     task_level auth tasklist_id (\<lambda>service tasklist_id.
        bnd (execute service (TasksMove tasklist_id task_id parent previous)) (\<lambda>moved.
          ret [(''tasklist_id'', tasklist_id), (''task'', moved)]))"

definition move_task ::
  "auth \<Rightarrow> string \<Rightarrow> string \<Rightarrow> string option \<Rightarrow> string option \<Rightarrow> (exn + dict) \<times> log" where
  "move_task auth task_id tasklist_id parent previous =
     try_except (move_task_body auth task_id tasklist_id parent previous) api_except []"

subsection \<open>\<^verbatim>\<open>search_tasks\<close>\<close>

text \<open>\<^verbatim>\<open>str.lower()\<close> on ASCII text.\<close>

definition lower_char :: "char \<Rightarrow> char" where
  "lower_char c = (if CHR ''A'' \<le> c \<and> c \<le> CHR ''Z'' then char_of (of_char c + (32::nat)) else c)"

definition py_lower :: "string \<Rightarrow> string" where
  "py_lower s = map lower_char s"

text \<open>A string operand of \<^verbatim>\<open>+\<close>, \<^verbatim>\<open><\<close> or \<^verbatim>\<open>>\<close> whose other operand is a string.\<close>

fun as_str :: "json \<Rightarrow> exn + string" where
  "as_str (JStr s) = Inr s"
| "as_str _ = Inl (TypeError ''unsupported operand types'')"

text \<open>\<^verbatim>\<open>(t.get("title", "") + " " + t.get("notes", "")).lower()\<close>\<close>

definition task_text :: "json \<Rightarrow> exn + string" where
  "task_text t =
     (case py_get t ''title'' (JStr []) of
        Inl e \<Rightarrow> Inl e
      | Inr title \<Rightarrow>
     (case as_str title of
        Inl e \<Rightarrow> Inl e
      | Inr a \<Rightarrow>
     (case py_get t ''notes'' (JStr []) of
        Inl e \<Rightarrow> Inl e
      | Inr notes \<Rightarrow>
     (case as_str notes of
        Inl e \<Rightarrow> Inl e
      | Inr b \<Rightarrow> Inr (py_lower (a @ '' '' @ b))))))"

text \<open>\<^verbatim>\<open>t.get("due") and t["due"] > due_before\<close>, and the same with \<^verbatim>\<open><\<close> and \<^verbatim>\<open>due_after\<close>.\<close>

definition due_gt :: "json \<Rightarrow> string \<Rightarrow> exn + bool" where
  "due_gt t bound =
     (case py_get t ''due'' JNull of
        Inl e \<Rightarrow> Inl e
      | Inr d \<Rightarrow>
          if \<not> truthy d then Inr False
          else (case py_getitem t ''due'' of
                  Inl e \<Rightarrow> Inl e
                | Inr due \<Rightarrow> (case as_str due of Inl e \<Rightarrow> Inl e | Inr s \<Rightarrow> Inr (s > bound))))"

definition due_lt :: "json \<Rightarrow> string \<Rightarrow> exn + bool" where
  "due_lt t bound =
     (case py_get t ''due'' JNull of
        Inl e \<Rightarrow> Inl e
      | Inr d \<Rightarrow>
          if \<not> truthy d then Inr False
          else (case py_getitem t ''due'' of
                  Inl e \<Rightarrow> Inl e
                | Inr due \<Rightarrow> (case as_str due of Inl e \<Rightarrow> Inl e | Inr s \<Rightarrow> Inr (s < bound))))"

text \<open>
  The three tests of \<^verbatim>\<open>_match\<close>, each saying whether it rejects the task. An optional
  string parameter used as a condition is false when it is \<^verbatim>\<open>None\<close> or \<^verbatim>\<open>""\<close>.
\<close>

definition query_rejects :: "string option \<Rightarrow> json \<Rightarrow> exn + bool" where
  "query_rejects query t =
     (case query of
        None \<Rightarrow> Inr False
      | Some q \<Rightarrow>
          if q = [] then Inr False
          else (case task_text t of
                  Inl e \<Rightarrow> Inl e
                | Inr text \<Rightarrow> Inr (\<not> sublist (py_lower q) text)))"

definition before_rejects :: "string option \<Rightarrow> json \<Rightarrow> exn + bool" where
  "before_rejects due_before t =
     (case due_before of
        None \<Rightarrow> Inr False
      | Some bound \<Rightarrow> if bound = [] then Inr False else due_gt t bound)"

definition after_rejects :: "string option \<Rightarrow> json \<Rightarrow> exn + bool" where
  "after_rejects due_after t =
     (case due_after of
        None \<Rightarrow> Inr False
      | Some bound \<Rightarrow> if bound = [] then Inr False else due_lt t bound)"

definition match :: "string option \<Rightarrow> string option \<Rightarrow> string option \<Rightarrow> json \<Rightarrow> exn + bool" where
  "match query due_before due_after t =
     (case query_rejects query t of
        Inl e \<Rightarrow> Inl e
      | Inr True \<Rightarrow> Inr False
      | Inr False \<Rightarrow>
     (case before_rejects due_before t of
        Inl e \<Rightarrow> Inl e
      | Inr True \<Rightarrow> Inr False
      | Inr False \<Rightarrow>
     (case after_rejects due_after t of
        Inl e \<Rightarrow> Inl e
      | Inr True \<Rightarrow> Inr False
      | Inr False \<Rightarrow> Inr True)))"

text \<open>\<^verbatim>\<open>[t for t in items if _match(t)]\<close>\<close>

fun select :: "('a \<Rightarrow> exn + bool) \<Rightarrow> 'a list \<Rightarrow> exn + 'a list" where
  "select p [] = Inr []"
| "select p (x # xs) =
     (case p x of
        Inl e \<Rightarrow> Inl e
      | Inr keep \<Rightarrow>
          (case select p xs of
             Inl e \<Rightarrow> Inl e
           | Inr ys \<Rightarrow> Inr (if keep then x # ys else ys)))"

definition search_tasks_body ::
  "auth \<Rightarrow> string \<Rightarrow> string option \<Rightarrow> bool \<Rightarrow> bool \<Rightarrow> string option \<Rightarrow> string option \<Rightarrow> int
     \<Rightarrow> dict comp" where
  "search_tasks_body auth tasklist_id query include_completed include_deleted due_before
       due_after max_results =
     task_level auth tasklist_id (\<lambda>service tasklist_id.
        bnd (execute service
               (TasksList tasklist_id max_results include_completed include_deleted)) (\<lambda>res.
        bnd (lift (py_get res ''items'' (JList []))) (\<lambda>items.
        bnd (lift (py_iter items)) (\<lambda>ts.
        bnd (lift (select (match query due_before due_after) ts)) (\<lambda>filtered.
          ret [(''tasklist_id'', tasklist_id), (''total'', JInt (int (length filtered))),
               (''tasks'', JList filtered)])))))"

definition search_tasks ::
  "auth \<Rightarrow> string \<Rightarrow> string option \<Rightarrow> bool \<Rightarrow> bool \<Rightarrow> string option \<Rightarrow> string option \<Rightarrow> int
     \<Rightarrow> (exn + dict) \<times> log" where
  "search_tasks auth tasklist_id query include_completed include_deleted due_before due_after
       max_results =
     try_except
       (search_tasks_body auth tasklist_id query include_completed include_deleted due_before
          due_after max_results)
       api_except []"

subsection \<open>\<^verbatim>\<open>get_tasks\<close> and \<^verbatim>\<open>list_tasklists\<close>\<close>

text \<open>
  \<^verbatim>\<open>repr\<close> of a value, for the message of \<^verbatim>\<open>get_tasks\<close> that prints the available
  lists (strings without quotes, backslashes or control characters).
\<close>

fun digits :: "nat \<Rightarrow> string" where
  "digits n = (if n < 10 then [digit_char n] else digits (n div 10) @ [digit_char n])"

definition join :: "string \<Rightarrow> string list \<Rightarrow> string" where
  "join sep xs = (case xs of [] \<Rightarrow> [] | x # rest \<Rightarrow> x @ concat (map (\<lambda>y. sep @ y) rest))"

fun py_repr :: "json \<Rightarrow> string" where
  "py_repr JNull = ''None''"
| "py_repr (JBool b) = (if b then ''True'' else ''False'')"
| "py_repr (JInt n) = (if n < 0 then ''-'' @ digits (nat (- n)) else digits (nat n))"
| "py_repr (JStr s) = quote @ s @ quote"
| "py_repr (JList xs) = ''['' @ join '', '' (map py_repr xs) @ '']''"
| "py_repr (JObj d) =
     ''{'' @ join '', '' (map (\<lambda>kv. quote @ fst kv @ quote @ '': '' @ py_repr (snd kv)) d) @ ''}''"

fun field :: "dict \<Rightarrow> string \<Rightarrow> json \<Rightarrow> json" where
  "field d k dflt = (case map_of d k of None \<Rightarrow> dflt | Some v \<Rightarrow> v)"

text \<open>The nine \<^verbatim>\<open>task.get(...)\<close> of the projection; the first fails on a non-dictionary.\<close>

fun format_task :: "json \<Rightarrow> exn + json" where
  "format_task (JObj d) =
     Inr (JObj [(''id'', field d ''id'' JNull), (''title'', field d ''title'' (JStr [])),
                (''status'', field d ''status'' (JStr ''needsAction'')),
                (''notes'', field d ''notes'' (JStr [])), (''due'', field d ''due'' JNull),
                (''updated'', field d ''updated'' JNull),
                (''position'', field d ''position'' JNull),
                (''parent'', field d ''parent'' JNull),
                (''links'', field d ''links'' (JList []))])"
| "format_task _ = Inl (AttributeError ''object has no attribute get'')"

fun format_list :: "json \<Rightarrow> exn + json" where
  "format_list (JObj d) =
     Inr (JObj [(''id'', field d ''id'' JNull), (''title'', field d ''title'' (JStr [])),
                (''updated'', field d ''updated'' JNull),
                (''self_link'', field d ''selfLink'' JNull)])"
| "format_list _ = Inl (AttributeError ''object has no attribute get'')"

text \<open>
  The \<^verbatim>\<open>except\<close> clauses of \<^verbatim>\<open>get_tasks\<close> read the local \<^verbatim>\<open>tasklist_id\<close>, which the
  handler overwrites with the first list when the alias is resolved.
\<close>

fun get_tasks_except :: "json \<Rightarrow> exn \<Rightarrow> dict" where
  "get_tasks_except tasklist_id (HttpError m) =
     [(''error'', JStr (''Google Tasks API error: '' @ m)), (''tasklist_id'', tasklist_id),
      (''tasks'', JList [])]"
| "get_tasks_except tasklist_id e =
     [(''error'', JStr (''Error retrieving tasks: '' @ exn_str e)), (''tasklist_id'', tasklist_id),
      (''tasks'', JList [])]"

text \<open>server.py 163-209, with the list already chosen.\<close>

definition get_tasks_fetch ::
  "service \<Rightarrow> json \<Rightarrow> json list \<Rightarrow> int \<Rightarrow> bool \<Rightarrow> bool \<Rightarrow> dict comp" where
  "get_tasks_fetch service tasklist_id available_lists max_results show_completed show_deleted =
     bnd (execute service (TasksList tasklist_id max_results show_completed show_deleted))
       (\<lambda>results.
     bnd (lift (py_get results ''items'' (JList []))) (\<lambda>tasks.
     bnd (lift (py_iter tasks)) (\<lambda>ts.
     bnd (lift (collect format_task ts)) (\<lambda>formatted_tasks.
       ret [(''tasklist_id'', tasklist_id), (''max_results'', JInt max_results),
            (''show_completed'', JBool show_completed), (''show_deleted'', JBool show_deleted),
            (''total_tasks'', JInt (int (length formatted_tasks))),
            (''tasks'', JList formatted_tasks),
            (''available_lists'', JList available_lists)]))))"

definition get_tasks_body ::
  "auth \<Rightarrow> string \<Rightarrow> int \<Rightarrow> bool \<Rightarrow> bool \<Rightarrow> dict comp" where
  "get_tasks_body auth tasklist_id max_results show_completed show_deleted =
     bnd (lift auth) (\<lambda>service.
        case service of
          None \<Rightarrow>
            ret [(''error'', JStr ''Failed to authenticate with Google Tasks API. Please check your credentials.''),
                 (''tasklist_id'', JStr tasklist_id), (''tasks'', JList [])]
        | Some service \<Rightarrow>
            bnd (execute service TasklistsList) (\<lambda>tasklists.
            bnd (lift (available_ids tasklists)) (\<lambda>available_lists.
              if tasklist_id = ''@default'' then
                (case available_lists of
                   [] \<Rightarrow>
                     ret [(''error'', JStr ''No task lists found in your Google Tasks account.''),
                          (''tasklist_id'', JStr tasklist_id), (''tasks'', JList [])]
                 | first # _ \<Rightarrow>
                     try_except
                       (get_tasks_fetch service first available_lists max_results
                          show_completed show_deleted)
                       (get_tasks_except first))
              else if JStr tasklist_id \<notin> set available_lists then
                ret [(''error'', JStr (''Task list '' @ quote @ tasklist_id @ quote
                        @ '' not found. Available lists: '' @ py_repr (JList available_lists))),
                     (''tasklist_id'', JStr tasklist_id),
                     (''available_lists'', JList available_lists), (''tasks'', JList [])]
              else
                get_tasks_fetch service (JStr tasklist_id) available_lists max_results
                  show_completed show_deleted)))"

definition get_tasks ::
  "auth \<Rightarrow> string \<Rightarrow> int \<Rightarrow> bool \<Rightarrow> bool \<Rightarrow> (exn + dict) \<times> log" where
  "get_tasks auth tasklist_id max_results show_completed show_deleted =
     try_except (get_tasks_body auth tasklist_id max_results show_completed show_deleted)
       (get_tasks_except (JStr tasklist_id)) []"

fun list_tasklists_except :: "exn \<Rightarrow> dict" where
  "list_tasklists_except (HttpError m) =
     [(''error'', JStr (''Google Tasks API error: '' @ m)), (''tasklists'', JList [])]"
| "list_tasklists_except e =
     [(''error'', JStr (''Error retrieving task lists: '' @ exn_str e)), (''tasklists'', JList [])]"

definition list_tasklists_body ::
  "auth \<Rightarrow> dict comp" where
  "list_tasklists_body auth =
     bnd (lift auth) (\<lambda>service.
        case service of
          None \<Rightarrow>
            ret [(''error'', JStr ''Failed to authenticate with Google Tasks API. Please check your credentials.''),
                 (''tasklists'', JList [])]
        | Some service \<Rightarrow>
            bnd (execute service TasklistsList) (\<lambda>results.
            bnd (lift (py_get results ''items'' (JList []))) (\<lambda>tasklists.
            bnd (lift (py_iter tasklists)) (\<lambda>tls.
            bnd (lift (collect format_list tls)) (\<lambda>formatted_lists.
              ret [(''total_lists'', JInt (int (length formatted_lists))),
                   (''tasklists'', JList formatted_lists)])))))"

definition list_tasklists ::
  "auth \<Rightarrow> (exn + dict) \<times> log" where
  "list_tasklists auth =
     try_except (list_tasklists_body auth) list_tasklists_except []"

subsection \<open>The registered tools\<close>

text \<open>The ten functions registered with \<^verbatim>\<open>@mcp.tool\<close>, each with its arguments.\<close>

datatype tool =
    GetTasks string int bool bool
  | ListTasklists
  | CreateTask string string string "string option" "string option" "string option"
  | UpdateTask string string "string option" "string option" "string option" "string option"
      "string option" "string option"
  | CompleteTask string string bool
  | DeleteTask string string
  | CreateTasklist string
  | GetTask string string
  | SearchTasks string "string option" bool bool "string option" "string option" int
  | MoveTask string string "string option" "string option"

fun run_tool :: "auth \<Rightarrow> tool \<Rightarrow> (exn + dict) \<times> log" where
  "run_tool auth (GetTasks tasklist_id max_results show_completed show_deleted) =
     get_tasks auth tasklist_id max_results show_completed show_deleted"
| "run_tool auth ListTasklists = list_tasklists auth"
| "run_tool auth (CreateTask title due tasklist_id notes parent position) =
     create_task auth title due tasklist_id notes parent position"
| "run_tool auth (UpdateTask task_id tasklist_id title notes due status parent position) =
     update_task auth task_id tasklist_id title notes due status parent position"
| "run_tool auth (CompleteTask task_id tasklist_id completed) =
     complete_task auth task_id tasklist_id completed"
| "run_tool auth (DeleteTask task_id tasklist_id) = delete_task auth task_id tasklist_id"
| "run_tool auth (CreateTasklist title) = create_tasklist auth title"
| "run_tool auth (GetTask task_id tasklist_id) = get_task auth task_id tasklist_id"
| "run_tool auth (SearchTasks tasklist_id query include_completed include_deleted due_before
       due_after max_results) =
     search_tasks auth tasklist_id query include_completed include_deleted due_before due_after
       max_results"
| "run_tool auth (MoveTask task_id tasklist_id parent previous) =
     move_task auth task_id tasklist_id parent previous"


text \<open>The \<^verbatim>\<open>tasklist\<close> keyword of a call that changes a task; \<open>None\<close> for the other calls.\<close>

fun mutated_list :: "call \<Rightarrow> json option" where
  "mutated_list (TasksInsert tasklist body parent previous) = Some tasklist"
| "mutated_list (TasksPatch tasklist task body) = Some tasklist"
| "mutated_list (TasksMove tasklist task parent previous) = Some tasklist"
| "mutated_list (TasksDelete tasklist task) = Some tasklist"
| "mutated_list _ = None"

text \<open>An envelope with an \<^verbatim>\<open>error\<close> field holding a string.\<close>

definition has_error :: "dict \<Rightarrow> bool" where
  "has_error d = (case map_of d ''error'' of Some (JStr m) \<Rightarrow> True | _ \<Rightarrow> False)"


section \<open>Example services\<close>

text \<open>
  An account with two lists and three tasks, whose delete call answers with an empty
  body, and an account without lists.
\<close>

definition demo_lists :: json where
  "demo_lists =
     JObj [(''items'', JList [JObj [(''id'', JStr ''L1''), (''title'', JStr ''Home'')],
                              JObj [(''id'', JStr ''L2''), (''title'', JStr ''Work'')]])]"

definition demo_tasks :: "json list" where
  "demo_tasks =
     [JObj [(''id'', JStr ''T1''), (''title'', JStr ''Buy milk''), (''due'', JStr ''2024-01-01'')],
      JObj [(''id'', JStr ''T2''), (''title'', JStr ''Pay bills''), (''due'', JStr ''2024-06-01'')],
      JObj [(''id'', JStr ''T3''), (''title'', JStr ''Call home'')]]"

fun demo_service :: service where
  "demo_service l TasklistsList = Inr demo_lists"
| "demo_service l (TasksList tasklist n sc sd) = Inr (JObj [(''items'', JList demo_tasks)])"
| "demo_service l (TasksDelete tasklist task) = Inr (JStr [])"
| "demo_service l (TasksGet tasklist task) =
     (if task = ''T9'' then Inl (HttpError ''404 Not Found'') else Inr (JObj [(''id'', JStr task)]))"
| "demo_service l c = Inr (JObj [(''id'', JStr ''T1''), (''status'', JStr ''needsAction'')])"

fun empty_service :: service where
  "empty_service l TasklistsList = Inr (JObj [])"
| "empty_service l c = Inl (HttpError ''404 Not Found'')"

section \<open>Unfolding the shared steps\<close>

lemma resolve_tasklist_id_unfold:
  "resolve_tasklist_id service tid l =
     (case service l TasklistsList of
        Inl e \<Rightarrow> (Inl e, l @ [(TasklistsList, Inl e)])
      | Inr tasklists \<Rightarrow>
          (case available_ids tasklists of
             Inl e \<Rightarrow> (Inl e, l @ [(TasklistsList, Inr tasklists)])
           | Inr av \<Rightarrow>
               (Inr (if tid = ''@default'' then
                       (case av of
                          [] \<Rightarrow> [(''error'', JStr ''No task lists found.''), (''available_lists'', JList [])]
                        | first # _ \<Rightarrow> [(''tasklist_id'', first), (''available_lists'', JList av)])
                     else if JStr tid \<notin> set av then
                       [(''error'', JStr (''Task list '' @ quote @ tid @ quote @ '' not found.'')),
                        (''available_lists'', JList av)]
                     else [(''tasklist_id'', JStr tid), (''available_lists'', JList av)]),
                l @ [(TasklistsList, Inr tasklists)])))"
  by (simp add: resolve_tasklist_id_def bnd_def execute_def lift_def ret_def
           split: sum.splits list.splits)

lemma task_level_unfold:
  "task_level auth tid rest [] =
     (case auth of
        Inl e \<Rightarrow> (Inl e, [])
      | Inr None \<Rightarrow> (Inr [(''error'', JStr ''Auth failed'')], [])
      | Inr (Some service) \<Rightarrow>
          (case service [] TasklistsList of
             Inl e \<Rightarrow> (Inl e, [(TasklistsList, Inl e)])
           | Inr tasklists \<Rightarrow>
               (case available_ids tasklists of
                  Inl e \<Rightarrow> (Inl e, [(TasklistsList, Inr tasklists)])
                | Inr av \<Rightarrow>
                    if tid = ''@default'' then
                      (case av of
                         [] \<Rightarrow> (Inr [(''error'', JStr ''No task lists found.''),
                                     (''available_lists'', JList [])],
                                [(TasklistsList, Inr tasklists)])
                       | first # _ \<Rightarrow> rest service first [(TasklistsList, Inr tasklists)])
                    else if JStr tid \<notin> set av then
                      (Inr [(''error'', JStr (''Task list '' @ quote @ tid @ quote @ '' not found.'')),
                            (''available_lists'', JList av)],
                       [(TasklistsList, Inr tasklists)])
                    else rest service (JStr tid) [(TasklistsList, Inr tasklists)])))"
  by (simp add: task_level_def resolve_tasklist_id_unfold bnd_def lift_def ret_def dict_merge_def
           split: sum.splits option.splits list.splits)

lemma resolved_log:
  "snd (resolve_tasklist_id service tid l) = l @ [(TasklistsList, service l TasklistsList)]"
  by (simp add: resolve_tasklist_id_unfold split: sum.splits)

lemma task_level_resolved:
  assumes "fst (resolve_tasklist_id service tid []) = Inr resolved"
      and "map_of resolved ''error'' = None"
      and "map_of resolved ''tasklist_id'' = Some lid"
  shows "task_level (Inr (Some service)) tid rest [] =
           rest service lid [(TasklistsList, service [] TasklistsList)]"
proof -
  have "resolve_tasklist_id service tid [] =
          (Inr resolved, [(TasklistsList, service [] TasklistsList)])"
    using assms(1) resolved_log [of service tid "[]"] by (simp add: prod_eq_iff)
  then show ?thesis
    using assms(2,3) by (simp add: task_level_def bnd_def lift_def)
qed

lemma try_except_fst:
  "fst (try_except body h l) = Inr (case fst (body l) of Inl e \<Rightarrow> h e | Inr d \<Rightarrow> d)"
  by (simp add: try_except_def split: prod.splits sum.splits)

lemma try_except_snd: "snd (try_except body h l) = snd (body l)"
  by (simp add: try_except_def split: prod.splits sum.splits)




section \<open>Properties of the handlers\<close>

text \<open>
  In the theorems below a list is validly resolved when \<open>resolve_tasklist_id\<close> returns a
  dictionary without \<^verbatim>\<open>error\<close> whose \<^verbatim>\<open>tasklist_id\<close> is \<open>lid\<close>.
\<close>

subsection \<open>Deleting a task\<close>

text \<open>
  C8. With a validly resolved list, \<open>delete_task\<close> issues the enumeration and then exactly
  one delete call, for the resolved list and the task identifier it was given; whatever
  body the delete call answers with (the service sends an empty one), the handler returns
  \<^verbatim>\<open>{tasklist_id, deleted: True, task_id}\<close> with that same task identifier.
\<close>

theorem delete_task_success:
  assumes "fst (resolve_tasklist_id service tid []) = Inr resolved"
      and "map_of resolved ''error'' = None"
      and "map_of resolved ''tasklist_id'' = Some lid"
  shows "snd (delete_task (Inr (Some service)) task_id tid) =
           [(TasklistsList, service [] TasklistsList),
            (TasksDelete lid task_id,
             service [(TasklistsList, service [] TasklistsList)] (TasksDelete lid task_id))]
         \<and> (\<forall>body. service [(TasklistsList, service [] TasklistsList)] (TasksDelete lid task_id)
                      = Inr body \<longrightarrow>
               fst (delete_task (Inr (Some service)) task_id tid) =
                 Inr [(''tasklist_id'', lid), (''deleted'', JBool True),
                      (''task_id'', JStr task_id)])"
  by (simp add: delete_task_def delete_task_body_def try_except_fst try_except_snd
        task_level_resolved [OF assms] bnd_def execute_def ret_def split: sum.splits)

text \<open>The example account: deleting \<open>T1\<close> from the default list.\<close>

theorem delete_task_success_witness:
  "delete_task (Inr (Some demo_service)) ''T1'' ''@default'' =
     (Inr [(''tasklist_id'', JStr ''L1''), (''deleted'', JBool True), (''task_id'', JStr ''T1'')],
      [(TasklistsList, Inr demo_lists), (TasksDelete (JStr ''L1'') ''T1'', Inr (JStr []))])"
proof -
  have r: "fst (resolve_tasklist_id demo_service ''@default'' []) =
             Inr [(''tasklist_id'', JStr ''L1''),
                  (''available_lists'', JList [JStr ''L1'', JStr ''L2''])]"
    by (simp add: resolve_tasklist_id_unfold demo_lists_def available_ids_def)
  show ?thesis
    using delete_task_success [OF r, of "JStr ''L1''" "''T1''"]
    by (simp add: prod_eq_iff)
qed

subsection \<open>Due dates when creating a task\<close>


lemma demo_available_ids: "available_ids demo_lists = Inr [JStr ''L1'', JStr ''L2'']"
  by (simp add: demo_lists_def available_ids_def)

lemma empty_available_ids: "available_ids (JObj []) = Inr []"
  by (simp add: available_ids_def)







subsection \<open>Resolving the list\<close>

lemma get_tasks_unfold:
  assumes "service [] TasklistsList = Inr tasklists"
      and "available_ids tasklists = Inr av"
  shows "get_tasks (Inr (Some service)) tid n sc sd =
     (if tid = ''@default'' then
        (case av of
           [] \<Rightarrow> (Inr [(''error'', JStr ''No task lists found in your Google Tasks account.''),
                       (''tasklist_id'', JStr tid), (''tasks'', JList [])],
                  [(TasklistsList, Inr tasklists)])
         | first # _ \<Rightarrow>
             try_except (get_tasks_fetch service first av n sc sd) (get_tasks_except first)
               [(TasklistsList, Inr tasklists)])
      else if JStr tid \<notin> set av then
        (Inr [(''error'', JStr (''Task list '' @ quote @ tid @ quote
                 @ '' not found. Available lists: '' @ py_repr (JList av))),
              (''tasklist_id'', JStr tid), (''available_lists'', JList av), (''tasks'', JList [])],
         [(TasklistsList, Inr tasklists)])
      else try_except (get_tasks_fetch service (JStr tid) av n sc sd) (get_tasks_except (JStr tid))
             [(TasklistsList, Inr tasklists)])"
  using assms
  by (simp add: get_tasks_def get_tasks_body_def try_except_def bnd_def lift_def execute_def ret_def
        split: list.splits prod.splits sum.splits)

lemma get_tasks_fetch_calls:
  "map fst (snd (get_tasks_fetch service lid av n sc sd l)) = map fst l @ [TasksList lid n sc sd]"
  by (simp add: get_tasks_fetch_def bnd_def lift_def execute_def ret_def split: sum.splits)

text \<open>
  C1. Whatever the enumeration \<open>av\<close> of the lists: for the alias \<^verbatim>\<open>@default\<close> the resolver
  returns an error when \<open>av\<close> is empty and the first identifier of \<open>av\<close> otherwise; a
  concrete identifier is returned unchanged when it is in \<open>av\<close>, and otherwise the result is
  a not-found error that carries all of \<open>av\<close>. \<open>get_tasks\<close>, which resolves inline, reports
  the same two errors without a task call and otherwise lists the tasks of the resolved
  identifier.
\<close>

theorem resolve_tasklist_id_algorithm:
  assumes "service [] TasklistsList = Inr tasklists"
      and "available_ids tasklists = Inr av"
  shows "(\<exists>resolved.
            resolve_tasklist_id service tid [] = (Inr resolved, [(TasklistsList, Inr tasklists)])
          \<and> (tid = ''@default'' \<and> av = [] \<longrightarrow>
               has_error resolved \<and> map_of resolved ''tasklist_id'' = None)
          \<and> (tid = ''@default'' \<and> av \<noteq> [] \<longrightarrow>
               map_of resolved ''error'' = None \<and> map_of resolved ''tasklist_id'' = Some (hd av))
          \<and> (tid \<noteq> ''@default'' \<and> JStr tid \<in> set av \<longrightarrow>
               map_of resolved ''error'' = None
               \<and> map_of resolved ''tasklist_id'' = Some (JStr tid))
          \<and> (tid \<noteq> ''@default'' \<and> JStr tid \<notin> set av \<longrightarrow>
               has_error resolved \<and> map_of resolved ''tasklist_id'' = None
               \<and> map_of resolved ''available_lists'' = Some (JList av)))
       \<and> (\<exists>d calls.
            get_tasks (Inr (Some service)) tid n sc sd = (Inr d, calls)
          \<and> (tid = ''@default'' \<and> av = [] \<longrightarrow>
               has_error d \<and> map fst calls = [TasklistsList])
          \<and> (tid = ''@default'' \<and> av \<noteq> [] \<longrightarrow>
               map fst calls = [TasklistsList, TasksList (hd av) n sc sd])
          \<and> (tid \<noteq> ''@default'' \<and> JStr tid \<in> set av \<longrightarrow>
               map fst calls = [TasklistsList, TasksList (JStr tid) n sc sd])
          \<and> (tid \<noteq> ''@default'' \<and> JStr tid \<notin> set av \<longrightarrow>
               has_error d \<and> map fst calls = [TasklistsList]
               \<and> map_of d ''available_lists'' = Some (JList av)))"
proof (rule conjI)
  show "\<exists>resolved.
            resolve_tasklist_id service tid [] = (Inr resolved, [(TasklistsList, Inr tasklists)])
          \<and> (tid = ''@default'' \<and> av = [] \<longrightarrow>
               has_error resolved \<and> map_of resolved ''tasklist_id'' = None)
          \<and> (tid = ''@default'' \<and> av \<noteq> [] \<longrightarrow>
               map_of resolved ''error'' = None \<and> map_of resolved ''tasklist_id'' = Some (hd av))
          \<and> (tid \<noteq> ''@default'' \<and> JStr tid \<in> set av \<longrightarrow>
               map_of resolved ''error'' = None
               \<and> map_of resolved ''tasklist_id'' = Some (JStr tid))
          \<and> (tid \<noteq> ''@default'' \<and> JStr tid \<notin> set av \<longrightarrow>
               has_error resolved \<and> map_of resolved ''tasklist_id'' = None
               \<and> map_of resolved ''available_lists'' = Some (JList av))"
    using assms by (cases av) (simp_all add: resolve_tasklist_id_unfold has_error_def)
next
  note unfolded = get_tasks_unfold [of service tasklists av tid n sc sd, OF assms]
  have calls: "map fst (snd (try_except (get_tasks_fetch service lid av n sc sd) h
                 [(TasklistsList, Inr tasklists)])) = [TasklistsList, TasksList lid n sc sd]"
    for lid h
    by (simp add: try_except_snd get_tasks_fetch_calls)
  have res: "\<exists>d. fst (try_except (get_tasks_fetch service lid av n sc sd) h
                 [(TasklistsList, Inr tasklists)]) = Inr d" for lid h
    by (simp add: try_except_fst)
  show "\<exists>d calls.
            get_tasks (Inr (Some service)) tid n sc sd = (Inr d, calls)
          \<and> (tid = ''@default'' \<and> av = [] \<longrightarrow>
               has_error d \<and> map fst calls = [TasklistsList])
          \<and> (tid = ''@default'' \<and> av \<noteq> [] \<longrightarrow>
               map fst calls = [TasklistsList, TasksList (hd av) n sc sd])
          \<and> (tid \<noteq> ''@default'' \<and> JStr tid \<in> set av \<longrightarrow>
               map fst calls = [TasklistsList, TasksList (JStr tid) n sc sd])
          \<and> (tid \<noteq> ''@default'' \<and> JStr tid \<notin> set av \<longrightarrow>
               has_error d \<and> map fst calls = [TasklistsList]
               \<and> map_of d ''available_lists'' = Some (JList av))"
  proof (cases "tid = ''@default''")
    case True
    show ?thesis
    proof (cases av)
      case Nil
      with True unfolded show ?thesis
        by (simp add: has_error_def)
    next
      case (Cons first rest)
      obtain d calls where dc: "try_except (get_tasks_fetch service first av n sc sd)
          (get_tasks_except first) [(TasklistsList, Inr tasklists)] = (Inr d, calls)"
        using res [of first "get_tasks_except first"] by (metis prod.collapse)
      then have "map fst calls = [TasklistsList, TasksList first n sc sd]"
        using calls [of first "get_tasks_except first"] by simp
      with True Cons dc unfolded show ?thesis
        by simp
    qed
  next
    case False
    show ?thesis
    proof (cases "JStr tid \<in> set av")
      case True
      obtain d calls where dc: "try_except (get_tasks_fetch service (JStr tid) av n sc sd)
          (get_tasks_except (JStr tid)) [(TasklistsList, Inr tasklists)] = (Inr d, calls)"
        using res [of "JStr tid" "get_tasks_except (JStr tid)"] by (metis prod.collapse)
      then have "map fst calls = [TasklistsList, TasksList (JStr tid) n sc sd]"
        using calls [of "JStr tid" "get_tasks_except (JStr tid)"] by simp
      with True False dc unfolded show ?thesis
        by simp
    next
      case notin: False
      with False unfolded show ?thesis
        by (simp add: has_error_def)
    qed
  qed
qed

lemma demo_enumerates: "demo_service [] TasklistsList = Inr demo_lists"
  by simp

lemma empty_enumerates: "empty_service [] TasklistsList = Inr (JObj [])"
  by simp

text \<open>The four cases on the example account and on the account without lists.\<close>

theorem resolve_tasklist_id_algorithm_witness:
  "(\<exists>resolved. resolve_tasklist_id demo_service ''@default'' [] =
                   (Inr resolved, [(TasklistsList, Inr demo_lists)])
               \<and> map_of resolved ''error'' = None
               \<and> map_of resolved ''tasklist_id'' = Some (JStr ''L1''))
   \<and> (\<exists>resolved. resolve_tasklist_id demo_service ''L2'' [] =
                   (Inr resolved, [(TasklistsList, Inr demo_lists)])
               \<and> map_of resolved ''error'' = None
               \<and> map_of resolved ''tasklist_id'' = Some (JStr ''L2''))
   \<and> (\<exists>resolved. resolve_tasklist_id demo_service ''L3'' [] =
                   (Inr resolved, [(TasklistsList, Inr demo_lists)])
               \<and> has_error resolved
               \<and> map_of resolved ''available_lists'' = Some (JList [JStr ''L1'', JStr ''L2'']))
   \<and> (\<exists>resolved. resolve_tasklist_id empty_service ''@default'' [] =
                   (Inr resolved, [(TasklistsList, Inr (JObj []))])
               \<and> has_error resolved)"
proof -
  note demo = resolve_tasklist_id_algorithm [of demo_service, OF demo_enumerates demo_available_ids]
  note empty = resolve_tasklist_id_algorithm [of empty_service, OF empty_enumerates
                 empty_available_ids]
  have a: "\<exists>resolved. resolve_tasklist_id demo_service ''@default'' [] =
                   (Inr resolved, [(TasklistsList, Inr demo_lists)])
               \<and> map_of resolved ''error'' = None
               \<and> map_of resolved ''tasklist_id'' = Some (JStr ''L1'')"
    using demo [of "''@default''" 0 False False] by simp
  have b: "\<exists>resolved. resolve_tasklist_id demo_service ''L2'' [] =
                   (Inr resolved, [(TasklistsList, Inr demo_lists)])
               \<and> map_of resolved ''error'' = None
               \<and> map_of resolved ''tasklist_id'' = Some (JStr ''L2'')"
    using demo [of "''L2''" 0 False False] by simp
  have c: "\<exists>resolved. resolve_tasklist_id demo_service ''L3'' [] =
                   (Inr resolved, [(TasklistsList, Inr demo_lists)])
               \<and> has_error resolved
               \<and> map_of resolved ''available_lists'' = Some (JList [JStr ''L1'', JStr ''L2''])"
    using demo [of "''L3''" 0 False False] by auto
  have d: "\<exists>resolved. resolve_tasklist_id empty_service ''@default'' [] =
                   (Inr resolved, [(TasklistsList, Inr (JObj []))])
               \<and> has_error resolved"
    using empty [of "''@default''" 0 False False] by auto
  from a b c d show ?thesis by blast
qed

subsection \<open>The filter of \<^verbatim>\<open>search_tasks\<close>: empty query and date bounds\<close>

lemma match_empty_query: "match (Some []) due_before due_after = match None due_before due_after"
  by (rule ext) (simp add: match_def query_rejects_def)

text \<open>
  C9. In \<open>search_tasks\<close> the query \<^verbatim>\<open>""\<close> behaves as no query: the text test rejects no
  task, \<open>_match\<close> is the same function, and so is the whole handler.
\<close>

theorem empty_query_is_no_query:
  "query_rejects (Some []) t = Inr False
   \<and> match (Some []) due_before due_after t = match None due_before due_after t
   \<and> search_tasks auth tid (Some []) include_completed include_deleted due_before due_after n =
       search_tasks auth tid None include_completed include_deleted due_before due_after n"
  by (simp add: match_empty_query search_tasks_def search_tasks_body_def query_rejects_def)

text \<open>
  C10. For a task with the due string \<open>s\<close>, \<^verbatim>\<open>due_before\<close> excludes it exactly when the
  bound (and \<open>s\<close>) is non-empty and strictly below \<open>s\<close>, \<^verbatim>\<open>due_after\<close> exactly when the bound
  is strictly above \<open>s\<close>; a bound equal to \<open>s\<close> excludes nothing.
\<close>

theorem due_bounds_inclusive:
  assumes "map_of d ''due'' = Some (JStr s)"
  shows "before_rejects (Some bound) (JObj d) = Inr (bound \<noteq> [] \<and> s \<noteq> [] \<and> bound < s)
       \<and> after_rejects (Some bound) (JObj d) = Inr (bound \<noteq> [] \<and> s \<noteq> [] \<and> s < bound)
       \<and> before_rejects (Some s) (JObj d) = Inr False
       \<and> after_rejects (Some s) (JObj d) = Inr False
       \<and> match None (Some s) (Some s) (JObj d) = Inr True"
  using assms
  by (simp add: before_rejects_def after_rejects_def due_gt_def due_lt_def match_def
        query_rejects_def)


text \<open>A task due \<^verbatim>\<open>2024-01-01\<close> against bounds on the day, the day before and the day after.\<close>

theorem due_bounds_inclusive_witness:
  "before_rejects (Some ''2024-01-01'') (JObj [(''title'', JStr ''Buy milk''),
       (''due'', JStr ''2024-01-01'')]) = Inr False
   \<and> after_rejects (Some ''2024-01-01'') (JObj [(''title'', JStr ''Buy milk''),
       (''due'', JStr ''2024-01-01'')]) = Inr False
   \<and> before_rejects (Some ''2023-12-31'') (JObj [(''title'', JStr ''Buy milk''),
       (''due'', JStr ''2024-01-01'')]) = Inr True
   \<and> after_rejects (Some ''2024-01-02'') (JObj [(''title'', JStr ''Buy milk''),
       (''due'', JStr ''2024-01-01'')]) = Inr True"
proof -
  have due: "map_of [(''title'', JStr ''Buy milk''), (''due'', JStr ''2024-01-01'')] ''due'' =
               Some (JStr ''2024-01-01'')"
    by simp
  show ?thesis
    using due_bounds_inclusive [OF due, of "''2023-12-31''"]
          due_bounds_inclusive [OF due, of "''2024-01-02''"]
    by simp
qed

subsection \<open>Completing and reopening a task\<close>

lemma demo_resolve_L2:
  "fst (resolve_tasklist_id demo_service ''L2'' []) =
     Inr [(''tasklist_id'', JStr ''L2''), (''available_lists'', JList [JStr ''L1'', JStr ''L2''])]"
  by (simp add: resolve_tasklist_id_unfold demo_lists_def available_ids_def)

text \<open>
  C5, as the code has it. With a validly resolved list, \<open>complete_task\<close> issues the
  enumeration and one patch whose body holds the single field \<^verbatim>\<open>status\<close>:
  \<^verbatim>\<open>completed\<close> when \<open>completed\<close> is true, \<^verbatim>\<open>needsAction\<close> when it is false.
\<close>

theorem complete_task_patch:
  assumes "fst (resolve_tasklist_id service tid []) = Inr resolved"
      and "map_of resolved ''error'' = None"
      and "map_of resolved ''tasklist_id'' = Some lid"
  shows "map fst (snd (complete_task (Inr (Some service)) task_id tid completed)) =
           [TasklistsList,
            TasksPatch lid task_id
              [(''status'', JStr (if completed then ''completed'' else ''needsAction''))]]"
  by (simp add: complete_task_def complete_task_body_def try_except_snd
        task_level_resolved [OF assms] bnd_def execute_def ret_def split: sum.splits)

text \<open>Completing and reopening \<open>T1\<close> of the example account.\<close>

theorem complete_task_patch_witness:
  "map fst (snd (complete_task (Inr (Some demo_service)) ''T1'' ''L2'' True)) =
     [TasklistsList, TasksPatch (JStr ''L2'') ''T1'' [(''status'', JStr ''completed'')]]
   \<and> map fst (snd (complete_task (Inr (Some demo_service)) ''T1'' ''L2'' False)) =
     [TasklistsList, TasksPatch (JStr ''L2'') ''T1'' [(''status'', JStr ''needsAction'')]]"
  using complete_task_patch [OF demo_resolve_L2, of "JStr ''L2''" "''T1'' " True]
        complete_task_patch [OF demo_resolve_L2, of "JStr ''L2''" "''T1'' " False]
  by simp

text \<open>
  C5 as stated names the status \<^verbatim>\<open>needs-action\<close>; reopening a task sends
  \<^verbatim>\<open>needsAction\<close>.
\<close>

theorem complete_task_reopen_counterexample:
  "map fst (snd (complete_task (Inr (Some demo_service)) ''T1'' ''L2'' False)) =
     [TasklistsList, TasksPatch (JStr ''L2'') ''T1'' [(''status'', JStr ''needsAction'')]]
   \<and> map fst (snd (complete_task (Inr (Some demo_service)) ''T1'' ''L2'' False)) \<noteq>
     [TasklistsList, TasksPatch (JStr ''L2'') ''T1'' [(''status'', JStr ''needs-action'')]]"
  by (simp add: complete_task_def complete_task_body_def try_except_snd task_level_unfold
        demo_lists_def available_ids_def bnd_def execute_def ret_def)

subsection \<open>Updating a task without fields\<close>




subsection \<open>The filter of \<^verbatim>\<open>search_tasks\<close>: text and dates\<close>










subsection \<open>No task call for an unresolved list\<close>

lemma task_level_guard:
  assumes "(c, r) \<in> set (snd (task_level auth tid rest []))"
      and "mutated_list c = Some lid"
      and rest: "\<And>service lid0 l0 c r. (c, r) \<in> set (snd (rest service lid0 l0)) \<Longrightarrow>
                   (c, r) \<in> set l0 \<or> mutated_list c = None \<or> mutated_list c = Some lid0"
  shows "\<exists>service tasklists av. auth = Inr (Some service)
           \<and> service [] TasklistsList = Inr tasklists \<and> available_ids tasklists = Inr av
           \<and> lid \<in> set av"
proof (cases auth)
  case (Inl e)
  with assms(1) show ?thesis by (simp add: task_level_unfold)
next
  case (Inr so)
  show ?thesis
  proof (cases so)
    case None
    with Inr assms(1) show ?thesis by (simp add: task_level_unfold)
  next
    case (Some service)
    show ?thesis
    proof (cases "service [] TasklistsList")
      case (Inl e)
      with Inr Some assms(1,2) show ?thesis by (auto simp: task_level_unfold)
    next
      case tasklists: (Inr tasklists)
      show ?thesis
      proof (cases "available_ids tasklists")
        case (Inl e)
        with Inr Some tasklists assms(1,2) show ?thesis by (auto simp: task_level_unfold)
      next
        case av: (Inr av)
        have in_rest: "(c, r) \<in> set (snd (rest service lid0 [(TasklistsList, Inr tasklists)]))
                         \<Longrightarrow> lid = lid0" for lid0
          using rest [of c r service lid0 "[(TasklistsList, Inr tasklists)]"] assms(2) by auto
        have "lid \<in> set av"
          using Inr Some tasklists av assms(1,2) in_rest
          by (auto simp: task_level_unfold split: list.splits if_splits)
        with Inr Some tasklists av show ?thesis by simp
      qed
    qed
  qed
qed

lemma create_task_guard:
  assumes "(c, r) \<in> set (snd (create_task auth title due tid nts parent position))"
      and "mutated_list c = Some lid"
  shows "\<exists>service tasklists av. auth = Inr (Some service)
           \<and> service [] TasklistsList = Inr tasklists \<and> available_ids tasklists = Inr av
           \<and> lid \<in> set av"
  using assms unfolding create_task_def create_task_body_def try_except_snd
  by (rule task_level_guard)
     (auto simp: bnd_def execute_def ret_def raise_def split: sum.splits exn.splits)

lemma update_task_guard:
  assumes "(c, r) \<in> set (snd (update_task auth task_id tid title nts due status parent position))"
      and "mutated_list c = Some lid"
  shows "\<exists>service tasklists av. auth = Inr (Some service)
           \<and> service [] TasklistsList = Inr tasklists \<and> available_ids tasklists = Inr av
           \<and> lid \<in> set av"
  using assms unfolding update_task_def update_task_body_def try_except_snd
  by (rule task_level_guard)
     (auto simp: bnd_def execute_def ret_def split: sum.splits if_splits)

lemma complete_task_guard:
  assumes "(c, r) \<in> set (snd (complete_task auth task_id tid completed))"
      and "mutated_list c = Some lid"
  shows "\<exists>service tasklists av. auth = Inr (Some service)
           \<and> service [] TasklistsList = Inr tasklists \<and> available_ids tasklists = Inr av
           \<and> lid \<in> set av"
  using assms unfolding complete_task_def complete_task_body_def try_except_snd
  by (rule task_level_guard) (auto simp: bnd_def execute_def ret_def split: sum.splits)

lemma delete_task_guard:
  assumes "(c, r) \<in> set (snd (delete_task auth task_id tid))"
      and "mutated_list c = Some lid"
  shows "\<exists>service tasklists av. auth = Inr (Some service)
           \<and> service [] TasklistsList = Inr tasklists \<and> available_ids tasklists = Inr av
           \<and> lid \<in> set av"
  using assms unfolding delete_task_def delete_task_body_def try_except_snd
  by (rule task_level_guard) (auto simp: bnd_def execute_def ret_def split: sum.splits)

lemma get_task_guard:
  assumes "(c, r) \<in> set (snd (get_task auth task_id tid))"
      and "mutated_list c = Some lid"
  shows "\<exists>service tasklists av. auth = Inr (Some service)
           \<and> service [] TasklistsList = Inr tasklists \<and> available_ids tasklists = Inr av
           \<and> lid \<in> set av"
  using assms unfolding get_task_def get_task_body_def try_except_snd
  by (rule task_level_guard) (auto simp: bnd_def execute_def ret_def split: sum.splits)

lemma move_task_guard:
  assumes "(c, r) \<in> set (snd (move_task auth task_id tid parent previous))"
      and "mutated_list c = Some lid"
  shows "\<exists>service tasklists av. auth = Inr (Some service)
           \<and> service [] TasklistsList = Inr tasklists \<and> available_ids tasklists = Inr av
           \<and> lid \<in> set av"
  using assms unfolding move_task_def move_task_body_def try_except_snd
  by (rule task_level_guard) (auto simp: bnd_def execute_def ret_def split: sum.splits)

lemma search_tasks_guard:
  assumes "(c, r) \<in> set (snd (search_tasks auth tid query ic idl due_before due_after n))"
      and "mutated_list c = Some lid"
  shows "\<exists>service tasklists av. auth = Inr (Some service)
           \<and> service [] TasklistsList = Inr tasklists \<and> available_ids tasklists = Inr av
           \<and> lid \<in> set av"
  using assms unfolding search_tasks_def search_tasks_body_def try_except_snd
  by (rule task_level_guard)
     (auto simp: bnd_def execute_def ret_def lift_def split: sum.splits)

lemma get_tasks_fetch_log:
  "snd (get_tasks_fetch service lid av n sc sd l) =
     l @ [(TasksList lid n sc sd, service l (TasksList lid n sc sd))]"
  by (simp add: get_tasks_fetch_def bnd_def lift_def execute_def ret_def split: sum.splits)

lemma get_tasks_reads_only:
  "(c, r) \<in> set (snd (get_tasks auth tid n sc sd)) \<Longrightarrow> mutated_list c = None"
  by (auto simp: get_tasks_def get_tasks_body_def try_except_snd get_tasks_fetch_log
        bnd_def lift_def execute_def ret_def
        split: sum.splits option.splits list.splits if_splits)

lemma list_tasklists_reads_only:
  "(c, r) \<in> set (snd (list_tasklists auth)) \<Longrightarrow> mutated_list c = None"
  by (auto simp: list_tasklists_def list_tasklists_body_def try_except_snd
        bnd_def lift_def execute_def ret_def split: sum.splits option.splits)

lemma create_tasklist_no_task_call:
  "(c, r) \<in> set (snd (create_tasklist auth title)) \<Longrightarrow> mutated_list c = None"
  by (auto simp: create_tasklist_def create_tasklist_body_def try_except_snd
        bnd_def lift_def execute_def ret_def split: sum.splits option.splits)

lemma run_tool_guard:
  assumes "(c, r) \<in> set (snd (run_tool auth t))"
      and "mutated_list c = Some lid"
  shows "\<exists>service tasklists av. auth = Inr (Some service)
           \<and> service [] TasklistsList = Inr tasklists \<and> available_ids tasklists = Inr av
           \<and> lid \<in> set av"
proof (cases t)
  case (GetTasks tid n sc sd)
  with assms get_tasks_reads_only [of c r auth tid n sc sd] show ?thesis by simp
next
  case ListTasklists
  with assms list_tasklists_reads_only [of c r auth] show ?thesis by simp
next
  case (CreateTask title due tid nts parent position)
  with assms(1) have "(c, r) \<in> set (snd (create_task auth title due tid nts parent position))"
    by simp
  then show ?thesis using assms(2) by (rule create_task_guard)
next
  case (UpdateTask task_id tid title nts due status parent position)
  with assms(1) have "(c, r) \<in> set (snd (update_task auth task_id tid title nts due status parent position))"
    by simp
  then show ?thesis using assms(2) by (rule update_task_guard)
next
  case (CompleteTask task_id tid completed)
  with assms(1) have "(c, r) \<in> set (snd (complete_task auth task_id tid completed))"
    by simp
  then show ?thesis using assms(2) by (rule complete_task_guard)
next
  case (DeleteTask task_id tid)
  with assms(1) have "(c, r) \<in> set (snd (delete_task auth task_id tid))"
    by simp
  then show ?thesis using assms(2) by (rule delete_task_guard)
next
  case (CreateTasklist title)
  with assms create_tasklist_no_task_call [of c r auth title] show ?thesis by simp
next
  case (GetTask task_id tid)
  with assms(1) have "(c, r) \<in> set (snd (get_task auth task_id tid))"
    by simp
  then show ?thesis using assms(2) by (rule get_task_guard)
next
  case (SearchTasks tid query ic idl due_before due_after n)
  with assms(1) have "(c, r) \<in> set (snd (search_tasks auth tid query ic idl due_before due_after n))"
    by simp
  then show ?thesis using assms(2) by (rule search_tasks_guard)
next
  case (MoveTask task_id tid parent previous)
  with assms(1) have "(c, r) \<in> set (snd (move_task auth task_id tid parent previous))"
    by simp
  then show ?thesis using assms(2) by (rule move_task_guard)
qed

text \<open>
  C4. When the enumeration is \<open>av\<close> and the requested list is the alias with \<open>av\<close> empty, or
  a concrete identifier that is not in \<open>av\<close>, each of \<open>create_task\<close>, \<open>update_task\<close>,
  \<open>complete_task\<close>, \<open>delete_task\<close>, \<open>move_task\<close> and \<open>get_task\<close> returns an error
  envelope and the enumeration is the only call it has issued. And for every tool, every
  input and every service: an insert, patch, move or delete call is only ever issued for a
  list identifier that the enumeration of that same invocation contains.
\<close>

theorem unresolved_list_short_circuits:
  assumes "service [] TasklistsList = Inr tasklists"
      and "available_ids tasklists = Inr av"
      and "(tid = ''@default'' \<and> av = []) \<or> (tid \<noteq> ''@default'' \<and> JStr tid \<notin> set av)"
  shows "(\<exists>d. create_task (Inr (Some service)) title due tid nts parent position =
               (Inr d, [(TasklistsList, Inr tasklists)]) \<and> has_error d)
       \<and> (\<exists>d. update_task (Inr (Some service)) task_id tid title' nts' due' status parent position =
               (Inr d, [(TasklistsList, Inr tasklists)]) \<and> has_error d)
       \<and> (\<exists>d. complete_task (Inr (Some service)) task_id tid completed =
               (Inr d, [(TasklistsList, Inr tasklists)]) \<and> has_error d)
       \<and> (\<exists>d. delete_task (Inr (Some service)) task_id tid =
               (Inr d, [(TasklistsList, Inr tasklists)]) \<and> has_error d)
       \<and> (\<exists>d. move_task (Inr (Some service)) task_id tid parent previous =
               (Inr d, [(TasklistsList, Inr tasklists)]) \<and> has_error d)
       \<and> (\<exists>d. get_task (Inr (Some service)) task_id tid =
               (Inr d, [(TasklistsList, Inr tasklists)]) \<and> has_error d)
       \<and> (\<forall>c r lid. (c, r) \<in> set (snd (run_tool auth t)) \<and> mutated_list c = Some lid \<longrightarrow>
            (\<exists>service' tasklists' av'. auth = Inr (Some service')
               \<and> service' [] TasklistsList = Inr tasklists' \<and> available_ids tasklists' = Inr av'
               \<and> lid \<in> set av'))"
proof -
  have create_task_stops: "\<exists>d. create_task (Inr (Some service)) title due tid nts parent position =
               (Inr d, [(TasklistsList, Inr tasklists)]) \<and> has_error d"
    using assms
    by (auto simp: create_task_def create_task_body_def try_except_def task_level_unfold has_error_def)
  have update_task_stops: "\<exists>d. update_task (Inr (Some service)) task_id tid title' nts' due' status parent position =
               (Inr d, [(TasklistsList, Inr tasklists)]) \<and> has_error d"
    using assms
    by (auto simp: update_task_def update_task_body_def try_except_def task_level_unfold has_error_def)
  have complete_task_stops: "\<exists>d. complete_task (Inr (Some service)) task_id tid completed =
               (Inr d, [(TasklistsList, Inr tasklists)]) \<and> has_error d"
    using assms
    by (auto simp: complete_task_def complete_task_body_def try_except_def task_level_unfold has_error_def)
  have delete_task_stops: "\<exists>d. delete_task (Inr (Some service)) task_id tid =
               (Inr d, [(TasklistsList, Inr tasklists)]) \<and> has_error d"
    using assms
    by (auto simp: delete_task_def delete_task_body_def try_except_def task_level_unfold has_error_def)
  have move_task_stops: "\<exists>d. move_task (Inr (Some service)) task_id tid parent previous =
               (Inr d, [(TasklistsList, Inr tasklists)]) \<and> has_error d"
    using assms
    by (auto simp: move_task_def move_task_body_def try_except_def task_level_unfold has_error_def)
  have get_task_stops: "\<exists>d. get_task (Inr (Some service)) task_id tid =
               (Inr d, [(TasklistsList, Inr tasklists)]) \<and> has_error d"
    using assms
    by (auto simp: get_task_def get_task_body_def try_except_def task_level_unfold has_error_def)
  have guard: "(\<forall>c r lid. (c, r) \<in> set (snd (run_tool auth t)) \<and> mutated_list c = Some lid \<longrightarrow>
              (\<exists>service' tasklists' av'. auth = Inr (Some service')
                 \<and> service' [] TasklistsList = Inr tasklists' \<and> available_ids tasklists' = Inr av'
                 \<and> lid \<in> set av'))"
    using run_tool_guard [of _ _ auth t] by blast
  from create_task_stops update_task_stops complete_task_stops delete_task_stops
    move_task_stops get_task_stops guard
  show ?thesis by blast
qed

text \<open>
  An absent list on the example account, the alias on the account without lists, and the
  delete call of a deletion from \<open>L2\<close>, which the enumeration contains.
\<close>

theorem unresolved_list_short_circuits_witness:
  "(\<exists>d. create_task (Inr (Some demo_service)) ''Dentist'' ''2024-12-31'' ''L3'' None None None =
          (Inr d, [(TasklistsList, Inr demo_lists)]) \<and> has_error d)
   \<and> (\<exists>d. delete_task (Inr (Some empty_service)) ''T1'' ''@default'' =
          (Inr d, [(TasklistsList, Inr (JObj []))]) \<and> has_error d)
   \<and> (TasksDelete (JStr ''L2'') ''T1'', Inr (JStr []))
        \<in> set (snd (run_tool (Inr (Some demo_service)) (DeleteTask ''T1'' ''L2'')))
   \<and> (\<exists>tasklists av. demo_service [] TasklistsList = Inr tasklists
          \<and> available_ids tasklists = Inr av \<and> JStr ''L2'' \<in> set av)"
proof -
  have absent: "(''L3'' = ''@default'' \<and> [JStr ''L1'', JStr ''L2''] = [])
                  \<or> (''L3'' \<noteq> ''@default'' \<and> JStr ''L3'' \<notin> set [JStr ''L1'', JStr ''L2''])"
    by simp
  have none: "(''@default'' = ''@default'' \<and> ([]::json list) = [])
                \<or> (''@default'' \<noteq> ''@default'' \<and> JStr ''@default'' \<notin> set [])"
    by simp
  have issued: "(TasksDelete (JStr ''L2'') ''T1'', Inr (JStr []))
        \<in> set (snd (run_tool (Inr (Some demo_service)) (DeleteTask ''T1'' ''L2'')))"
    by (simp add: delete_task_def delete_task_body_def try_except_snd task_level_unfold
          demo_available_ids bnd_def execute_def ret_def)
  note a = unresolved_list_short_circuits [where service = demo_service
               and auth = "Inr (Some demo_service)" and t = "DeleteTask ''T1'' ''L2''"
               and title = "''Dentist''" and due = "''2024-12-31''" and nts = None
               and parent = None and position = None and task_id = "''T1''"
               and title' = None and nts' = None and due' = None and status = None
               and completed = True and previous = None,
             OF demo_enumerates demo_available_ids absent]
  note b = unresolved_list_short_circuits [where service = empty_service
               and task_id = "''T1''" and auth = "Inr None" and t = ListTasklists
               and title = "[]" and due = "[]" and nts = None and parent = None
               and position = None and title' = None and nts' = None and due' = None
               and status = None and completed = True and previous = None,
             OF empty_enumerates empty_available_ids none]
  have c: "\<exists>tasklists av. demo_service [] TasklistsList = Inr tasklists
          \<and> available_ids tasklists = Inr av \<and> JStr ''L2'' \<in> set av"
  proof -
    have "mutated_list (TasksDelete (JStr ''L2'') ''T1'') = Some (JStr ''L2'')"
      by simp
    with a issued show ?thesis by blast
  qed
  from a b c issued show ?thesis by blast
qed

subsection \<open>Every outcome is an envelope\<close>


















end
